theory Spec2Isabelle
  imports
    Main
    "HOL-Library.Char_ord"
    "HOL-Library.List_Lexorder"
    "HOL-Library.Sublist"
    "HOL-Library.Multiset"
begin

section \<open>The chat list page of PeerLink (src/app/chat/page.tsx)\<close>

text \<open>
  The page reads the user profile, the chats and the paired users from the application
  context, merges the chats with one placeholder per paired user that has no chat yet
  (\<open>createCombinedChatList\<close>), filters the merged list by the search query
  (\<open>filteredChats\<close>) and renders one card per remaining chat. The context values are
  parameters of the functions below.
\<close>

subsection \<open>JavaScript strings and arrays\<close>

text \<open>
  A JavaScript string is a sequence of code units, compared unit by unit; here a code
  unit is a \<^typ>\<open>char\<close>, ordered by its numeric value, and a string is a
  \<^typ>\<open>string\<close> in the lexicographic order, in which a proper prefix comes first.
  That is the order of the default \<open>Array.prototype.sort\<close> on strings, which the list
  function \<^const>\<open>sort\<close> then computes.
\<close>

text \<open>\<open>Array.prototype.join\<close> on an array of strings.\<close>

fun join :: "string list \<Rightarrow> string \<Rightarrow> string" where
  "join [] sep = []"
| "join [x] sep = x"
| "join (x # y # ys) sep = x @ sep @ join (y # ys) sep"

text \<open>
  \<open>String.prototype.toLowerCase\<close>, unit by unit: the capital letters of ASCII
  (65 to 90) and of Latin-1 (192 to 222 without the multiplication sign 215) move up by 32,
  every other unit below 256 is its own lower case.
\<close>

definition lowerUnit :: "char \<Rightarrow> char" where
  "lowerUnit c =
     (let n = (of_char c :: nat)
      in if (65 \<le> n \<and> n \<le> 90) \<or> (192 \<le> n \<and> n \<le> 222 \<and> n \<noteq> 215)
         then char_of (n + 32) else c)"

definition toLowerCase :: "string \<Rightarrow> string" where
  "toLowerCase s = map lowerUnit s"

text \<open>\<open>String.prototype.includes\<close>: the argument occurs as a contiguous run.\<close>

fun str_includes :: "string \<Rightarrow> string \<Rightarrow> bool" where
  "str_includes [] q = (q = [])"
| "str_includes (c # cs) q = (prefix q (c # cs) \<or> str_includes cs q)"

text \<open>\<open>Array.prototype.includes\<close> on an array of strings.\<close>

definition arr_includes :: "string list \<Rightarrow> string \<Rightarrow> bool" where
  "arr_includes xs x = (x \<in> set xs)"

text \<open>
  \<open>a || b\<close> where \<open>a\<close> is an optional string: \<open>undefined\<close> and the empty string
  are falsy, and then the value is \<open>b\<close>.
\<close>

definition or_else :: "string option \<Rightarrow> string \<Rightarrow> string" where
  "or_else a b = (case a of None \<Rightarrow> b | Some s \<Rightarrow> if s = [] then b else s)"

subsection \<open>The data of the application context\<close>

record userProfile =
  up_userId :: string
  up_displayName :: string
  up_avatar :: "string option"

record pairedUser =
  userId :: string
  displayName :: string
  localDisplayName :: "string option"
  avatar :: "string option"

record participantDetail =
  pd_displayName :: string
  pd_avatar :: "string option"

record message =
  text_of :: string
  timestamp :: int
  deletedForEveryone :: bool

text \<open>
  \<open>participants\<close> is typed as a pair of strings and is an array at run time; the page
  only calls \<open>includes\<close> and \<open>find\<close> on it. \<open>participantDetails\<close> is a plain
  object indexed by user ID; the map holds its own entries. \<open>lastMessage\<close> and
  \<open>isPending\<close> may be missing. \<open>unreadCount\<close> is a number, here an integer, and so
  is \<open>timestamp\<close>.
\<close>

record chat =
  chatId :: string
  participants :: "string list"
  participantDetails :: "string \<rightharpoonup> participantDetail"
  lastMessage :: "message option"
  unreadCount :: int
  isPending :: "bool option"

subsection \<open>createCombinedChatList\<close>

text \<open>
  \<open>chats.find(chat => chat.participants.includes(userId) &&
  chat.participants.includes(userProfile.userId))\<close>
\<close>

definition existingChat :: "chat list \<Rightarrow> string \<Rightarrow> string \<Rightarrow> chat option" where
  "existingChat chats selfId uid =
     find (\<lambda>chat. arr_includes (participants chat) uid \<and> arr_includes (participants chat) selfId)
       chats"

text \<open>\<open>[userProfile.userId, userId].sort()\<close>\<close>

definition sortedParticipantIds :: "string \<Rightarrow> string \<Rightarrow> string list" where
  "sortedParticipantIds selfId uid = sort [selfId, uid]"

text \<open>
  The placeholder built for a paired user. In the object literal of
  \<open>participantDetails\<close> the entry of the paired user is written second and wins when
  both keys are the same string.
\<close>

definition newChat :: "userProfile \<Rightarrow> pairedUser \<Rightarrow> chat" where
  "newChat profile user =
     (let ids = sortedParticipantIds (up_userId profile) (userId user)
      in \<lparr> chatId = join ids ''_'',
           participants = ids,
           participantDetails =
             [up_userId profile \<mapsto>
                \<lparr> pd_displayName = up_displayName profile, pd_avatar = up_avatar profile \<rparr>,
              userId user \<mapsto>
                \<lparr> pd_displayName = or_else (localDisplayName user) (displayName user),
                  pd_avatar = avatar user \<rparr>],
           lastMessage = None,
           unreadCount = 0,
           isPending = Some True \<rparr>)"

text \<open>
  One round of \<open>pairedUsers.forEach\<close>: the search runs over \<open>chats\<close>, the list from
  the context, and the placeholder is pushed onto \<open>chatList\<close>, the copy being built.
\<close>

definition addPlaceholder :: "userProfile \<Rightarrow> chat list \<Rightarrow> pairedUser \<Rightarrow> chat list \<Rightarrow> chat list" where
  "addPlaceholder profile chats user chatList =
     (case existingChat chats (up_userId profile) (userId user) of
        None \<Rightarrow> chatList @ [newChat profile user]
      | Some found \<Rightarrow> chatList)"

definition createCombinedChatList ::
    "userProfile option \<Rightarrow> chat list \<Rightarrow> pairedUser list \<Rightarrow> chat list" where
  "createCombinedChatList profile chats pairedUsers =
     (case profile of
        None \<Rightarrow> []
      | Some p \<Rightarrow> fold (addPlaceholder p chats) pairedUsers chats)"

subsection \<open>Errors, property reads and callbacks that throw\<close>

text \<open>
  The page catches nothing, so an error thrown while it filters or renders is the result
  of the whole step. \<open>TypeError\<close> is what reading a property of \<open>undefined\<close> throws;
  \<open>RangeError\<close> is there for the date formatter, which is not part of the repository.
\<close>

datatype error = TypeError | RangeError

text \<open>
  \<open>obj[key]\<close> on a plain object finds the object's own entry first and then what every
  object inherits from \<open>Object.prototype\<close>: its methods, and the prototype itself under
  \<open>__proto__\<close>. All of these are truthy, and none of them has a \<open>displayName\<close> or an
  \<open>avatar\<close>. Any other key gives \<open>undefined\<close>.
\<close>

definition objectPrototypeKeys :: "string list" where
  "objectPrototypeKeys =
     [''constructor'', ''__proto__'', ''hasOwnProperty'', ''isPrototypeOf'',
      ''propertyIsEnumerable'', ''toLocaleString'', ''toString'', ''valueOf'',
      ''__defineGetter__'', ''__defineSetter__'', ''__lookupGetter__'', ''__lookupSetter__'']"

datatype 'a property = Own 'a | Inherited | Missing

definition getProperty :: "(string \<rightharpoonup> 'a) \<Rightarrow> string \<Rightarrow> 'a property" where
  "getProperty obj key =
     (case obj key of
        Some v \<Rightarrow> Own v
      | None \<Rightarrow> if key \<in> set objectPrototypeKeys then Inherited else Missing)"

text \<open>
  \<open>Array.prototype.filter\<close> and \<open>Array.prototype.map\<close> call the callback on the
  elements from left to right; the first call that throws ends the loop with its error.
\<close>

fun filter_js :: "('a \<Rightarrow> error + bool) \<Rightarrow> 'a list \<Rightarrow> error + 'a list" where
  "filter_js f [] = Inr []"
| "filter_js f (x # xs) =
     (case f x of
        Inl e \<Rightarrow> Inl e
      | Inr keep \<Rightarrow>
          (case filter_js f xs of
             Inl e \<Rightarrow> Inl e
           | Inr ys \<Rightarrow> Inr (if keep then x # ys else ys)))"

fun map_js :: "('a \<Rightarrow> error + 'b) \<Rightarrow> 'a list \<Rightarrow> error + 'b list" where
  "map_js f [] = Inr []"
| "map_js f (x # xs) =
     (case f x of
        Inl e \<Rightarrow> Inl e
      | Inr y \<Rightarrow> (case map_js f xs of Inl e \<Rightarrow> Inl e | Inr ys \<Rightarrow> Inr (y # ys)))"

subsection \<open>filteredChats\<close>

text \<open>
  The callback of \<open>allChats.filter\<close>. \<open>!otherParticipantId\<close> holds when \<open>find\<close>
  returned \<open>undefined\<close> and also when the ID found is the empty string.
  \<open>!otherParticipant\<close> holds only when the read gave \<open>undefined\<close>; on an inherited
  member \<open>otherParticipant.displayName\<close> is \<open>undefined\<close> and calling
  \<open>toLowerCase\<close> on it throws.
\<close>

definition otherParticipantId :: "userProfile \<Rightarrow> chat \<Rightarrow> string option" where
  "otherParticipantId p c = find (\<lambda>i. i \<noteq> up_userId p) (participants c)"

definition chatMatches :: "userProfile option \<Rightarrow> string \<Rightarrow> chat \<Rightarrow> error + bool" where
  "chatMatches profile searchQuery c =
     (case profile of
        None \<Rightarrow> Inr False
      | Some p \<Rightarrow>
          (case otherParticipantId p c of
             None \<Rightarrow> Inr False
           | Some other \<Rightarrow>
               if other = [] then Inr False
               else (case getProperty (participantDetails c) other of
                       Missing \<Rightarrow> Inr False
                     | Inherited \<Rightarrow> Inl TypeError
                     | Own otherParticipant \<Rightarrow>
                         Inr (str_includes (toLowerCase (pd_displayName otherParticipant))
                                (toLowerCase searchQuery)))))"

definition filteredChats ::
    "userProfile option \<Rightarrow> string \<Rightarrow> chat list \<Rightarrow> error + chat list" where
  "filteredChats profile searchQuery allChats =
     filter_js (chatMatches profile searchQuery) allChats"

subsection \<open>The rendered cards\<close>

text \<open>
  A child of a JSX element is a string or a number. React shows a number as JavaScript
  prints it: in decimal below \<open>10^21\<close> in magnitude. From there on JavaScript prints an
  exponent; that form is not described here, and \<open>shown\<close> has no value for it.
\<close>

datatype jsx_child = JsxText string | JsxNumber int

fun decimal :: "nat \<Rightarrow> string" where
  "decimal n =
     (if n < 10 then [char_of (48 + n)] else decimal (n div 10) @ [char_of (48 + n mod 10)])"

declare decimal.simps [simp del]

definition shown :: "jsx_child \<Rightarrow> string option" where
  "shown ch =
     (case ch of
        JsxText s \<Rightarrow> Some s
      | JsxNumber n \<Rightarrow>
          if \<bar>n\<bar> < 10 ^ 21
          then Some (if n < 0 then ''-'' @ decimal (nat (- n)) else decimal (nat n))
          else None)"

text \<open>
  The badge: \<open>chat.unreadCount ? (chat.unreadCount > 9 ? '9+' : chat.unreadCount) : null\<close>.
  A number is falsy when it is zero.
\<close>

definition unreadBadge :: "chat \<Rightarrow> jsx_child option" where
  "unreadBadge c =
     (if unreadCount c \<noteq> 0
      then Some (if unreadCount c > 9 then JsxText ''9+'' else JsxNumber (unreadCount c))
      else None)"

text \<open>
  \<open>pairedUser?.localDisplayName || pairedUser?.displayName || otherParticipant.displayName\<close>.
  The last operand is \<open>undefined\<close> when \<open>otherParticipant\<close> is an inherited member,
  and then so is the whole expression unless the paired user provides a name.
\<close>

definition or_undefined :: "string option \<Rightarrow> string option \<Rightarrow> string option" where
  "or_undefined a b = (case a of None \<Rightarrow> b | Some s \<Rightarrow> if s = [] then b else Some s)"

definition resolvedDisplayName :: "pairedUser option \<Rightarrow> string option \<Rightarrow> string option" where
  "resolvedDisplayName pairedUser storedName =
     or_undefined (case pairedUser of None \<Rightarrow> None | Some u \<Rightarrow> localDisplayName u)
       (or_undefined (case pairedUser of None \<Rightarrow> None | Some u \<Rightarrow> Some (displayName u))
          storedName)"

definition subtitle :: "chat \<Rightarrow> string" where
  "subtitle c =
     (if isPending c = Some True then ''Start a conversation''
      else (case lastMessage c of
              Some m \<Rightarrow> if deletedForEveryone m then ''This message was deleted'' else text_of m
            | None \<Rightarrow> ''No messages yet''))"

text \<open>
  \<open>chat.lastMessage ? format(new Date(chat.lastMessage.timestamp), 'HH:mm') : ''\<close>.
  \<open>format\<close> comes from the library date-fns; here it is the parameter \<open>formatTime\<close>,
  from the timestamp to the text it returns or the error it throws.
\<close>

definition timeLabel :: "(int \<Rightarrow> error + string) \<Rightarrow> chat \<Rightarrow> error + string" where
  "timeLabel formatTime c =
     (case lastMessage c of None \<Rightarrow> Inr [] | Some m \<Rightarrow> formatTime (timestamp m))"

record chatCard =
  card_key :: string
  card_participantId :: string
  card_displayName :: string
  card_avatarSrc :: "string option"
  card_badge :: "jsx_child option"
  card_dashed :: bool
  card_time :: string
  card_subtitle :: string

text \<open>
  The card of a chat whose other participant was found, read off the JSX from top to
  bottom: the initials in the avatar are \<open>displayName.substring(0, 2).toUpperCase()\<close>,
  which throws when \<open>displayName\<close> is \<open>undefined\<close>; the time label comes later. The
  initials themselves are not a field of the card.
\<close>

definition chatCardOf ::
    "(int \<Rightarrow> error + string) \<Rightarrow> pairedUser list \<Rightarrow> chat \<Rightarrow> string \<Rightarrow> string option \<Rightarrow>
     string option \<Rightarrow> error + chatCard option" where
  "chatCardOf formatTime pairedUsers c other storedName storedAvatar =
     (case resolvedDisplayName (find (\<lambda>user. userId user = other) pairedUsers) storedName of
        None \<Rightarrow> Inl TypeError
      | Some name \<Rightarrow>
          (case timeLabel formatTime c of
             Inl e \<Rightarrow> Inl e
           | Inr time \<Rightarrow>
               Inr (Some \<lparr> card_key = chatId c,
                           card_participantId = other,
                           card_displayName = name,
                           card_avatarSrc = storedAvatar,
                           card_badge = unreadBadge c,
                           card_dashed = (isPending c = Some True),
                           card_time = time,
                           card_subtitle = subtitle c \<rparr>)))"

text \<open>The callback of \<open>filteredChats.map\<close>; \<open>None\<close> is the \<open>null\<close> it returns.\<close>

definition renderChat ::
    "(int \<Rightarrow> error + string) \<Rightarrow> userProfile option \<Rightarrow> pairedUser list \<Rightarrow> chat \<Rightarrow>
     error + chatCard option" where
  "renderChat formatTime profile pairedUsers c =
     (case profile of
        None \<Rightarrow> Inr None
      | Some p \<Rightarrow>
          (case otherParticipantId p c of
             None \<Rightarrow> Inr None
           | Some other \<Rightarrow>
               if other = [] then Inr None
               else (case getProperty (participantDetails c) other of
                       Missing \<Rightarrow> Inr None
                     | Inherited \<Rightarrow> chatCardOf formatTime pairedUsers c other None None
                     | Own otherParticipant \<Rightarrow>
                         chatCardOf formatTime pairedUsers c other
                           (Some (pd_displayName otherParticipant))
                           (pd_avatar otherParticipant))))"

datatype page = Spinner | NoChatsYet | Cards "chatCard option list"

definition ChatListPage ::
    "(int \<Rightarrow> error + string) \<Rightarrow> bool \<Rightarrow> userProfile option \<Rightarrow> chat list \<Rightarrow>
     pairedUser list \<Rightarrow> string \<Rightarrow> error + page" where
  "ChatListPage formatTime isInitialized profile chats pairedUsers searchQuery =
     (if \<not> isInitialized then Inr Spinner
      else (case filteredChats profile searchQuery
                   (createCombinedChatList profile chats pairedUsers) of
              Inl e \<Rightarrow> Inl e
            | Inr filtered \<Rightarrow>
                if filtered = [] then Inr NoChatsYet
                else (case map_js (renderChat formatTime profile pairedUsers) filtered of
                        Inl e \<Rightarrow> Inl e
                      | Inr cards \<Rightarrow> Inr (Cards cards))))"

subsection \<open>The unordered pair of a chat, and example data\<close>

text \<open>
  Two chats are between the same two users when their participants agree as multisets,
  whatever the order in which each chat lists them.
\<close>

definition participantPair :: "chat \<Rightarrow> string multiset" where
  "participantPair c = mset (participants c)"

definition ex_me :: userProfile where
  "ex_me = \<lparr> up_userId = ''me'', up_displayName = ''Me'', up_avatar = None \<rparr>"

definition ex_bob :: pairedUser where
  "ex_bob = \<lparr> userId = ''bob'', displayName = ''Robert'', localDisplayName = Some ''Bob'',
              avatar = None \<rparr>"

definition ex_alice :: pairedUser where
  "ex_alice = \<lparr> userId = ''alice'', displayName = ''Alice'', localDisplayName = None,
                avatar = None \<rparr>"

definition ex_self :: pairedUser where
  "ex_self = \<lparr> userId = ''me'', displayName = ''Me'', localDisplayName = None, avatar = None \<rparr>"

definition ex_bobChat :: chat where
  "ex_bobChat =
     \<lparr> chatId = ''bob_me'',
       participants = [''bob'', ''me''],
       participantDetails =
         [''me'' \<mapsto> \<lparr> pd_displayName = ''Me'', pd_avatar = None \<rparr>,
          ''bob'' \<mapsto> \<lparr> pd_displayName = ''Robert'', pd_avatar = None \<rparr>],
       lastMessage = None,
       unreadCount = 12,
       isPending = None \<rparr>"

definition ex_foreignChat :: chat where
  "ex_foreignChat =
     \<lparr> chatId = ''carol_dave'',
       participants = [''carol'', ''dave''],
       participantDetails =
         [''carol'' \<mapsto> \<lparr> pd_displayName = ''Carol'', pd_avatar = None \<rparr>,
          ''dave'' \<mapsto> \<lparr> pd_displayName = ''Dave'', pd_avatar = None \<rparr>],
       lastMessage = None,
       unreadCount = 0,
       isPending = None \<rparr>"

text \<open>
  An example for \<open>formatTime\<close>: hours and minutes of a timestamp in milliseconds where
  the local time is UTC, and a \<open>RangeError\<close> outside the range of \<open>Date\<close>.
\<close>

definition two_digits :: "nat \<Rightarrow> string" where
  "two_digits n = [char_of (48 + n div 10 mod 10), char_of (48 + n mod 10)]"

definition ex_formatUTC :: "int \<Rightarrow> error + string" where
  "ex_formatUTC t =
     (if \<bar>t\<bar> \<le> 8640000000000000
      then Inr (two_digits (nat (t div 3600000 mod 24)) @ '':'' @
                two_digits (nat (t div 60000 mod 60)))
      else Inl RangeError)"

section \<open>Properties\<close>

lemmas ex_defs = ex_me_def ex_bob_def ex_alice_def ex_self_def ex_bobChat_def ex_foreignChat_def

lemmas eval_defs = existingChat_def arr_includes_def newChat_def Let_def sortedParticipantIds_def
  createCombinedChatList_def addPlaceholder_def participantPair_def

text \<open>The example formatter on 14 November 2023, 22:13:20 UTC.\<close>

lemma ex_formatUTC_sample: "ex_formatUTC 1700000000000 = Inr ''22:13''"
  by (simp add: ex_formatUTC_def two_digits_def char_of_def bit_Suc_0_iff)

subsection \<open>The shape of the merged list\<close>

text \<open>\<open>includes\<close> on strings is the contiguous-sublist relation of the library.\<close>

lemma str_includes_sublist: "str_includes s q = sublist q s"
  by (induction s) (auto simp: sublist_Cons_right)

text \<open>
  The loop only ever appends, and whether it appends for a paired user depends on the
  chats of the context alone, so the result is the chats followed by the placeholders of
  the paired users without a chat, in the order of the paired users.
\<close>

lemma fold_addPlaceholder:
  "fold (addPlaceholder p chats) pairedUsers chatList =
     chatList @ map (newChat p)
       (filter (\<lambda>u. existingChat chats (up_userId p) (userId u) = None) pairedUsers)"
  by (induction pairedUsers arbitrary: chatList)
     (simp_all add: addPlaceholder_def split: option.split)

lemma createCombinedChatList_Some:
  "createCombinedChatList (Some p) chats pairedUsers =
     chats @ map (newChat p)
       (filter (\<lambda>u. existingChat chats (up_userId p) (userId u) = None) pairedUsers)"
  by (simp add: createCombinedChatList_def fold_addPlaceholder)

lemma participants_newChat:
  "participants (newChat p u) = sortedParticipantIds (up_userId p) (userId u)"
  by (simp add: newChat_def Let_def)

lemma mset_sortedParticipantIds: "mset (sortedParticipantIds a b) = {#a, b#}"
  by (simp add: sortedParticipantIds_def)

lemma sortedParticipantIds_commute: "sortedParticipantIds a b = sortedParticipantIds b a"
  by (auto simp: sortedParticipantIds_def)

lemma participantPair_newChat: "participantPair (newChat p u) = {#up_userId p, userId u#}"
  by (simp add: participantPair_def participants_newChat mset_sortedParticipantIds)

lemma existingChat_None:
  "existingChat chats s u = None \<longleftrightarrow>
     (\<forall>c\<in>set chats. \<not> (u \<in> set (participants c) \<and> s \<in> set (participants c)))"
  by (auto simp: existingChat_def find_None_iff arr_includes_def)

lemma pair_members:
  assumes "participantPair c = {#s, u#}"
  shows "u \<in> set (participants c) \<and> s \<in> set (participants c)"
proof -
  have "set_mset (mset (participants c)) = set_mset {#s, u#}"
    using assms by (simp add: participantPair_def)
  then show ?thesis by auto
qed

lemma filter_key_single:
  "distinct (map f xs) \<Longrightarrow> x \<in> set xs \<Longrightarrow> filter (\<lambda>y. f y = f x) xs = [x]"
proof (induction xs)
  case Nil
  then show ?case by simp
next
  case (Cons a xs)
  show ?case
  proof (cases "a = x")
    case True
    from Cons.prems(1) True have "f x \<notin> f ` set xs" by simp
    then have "\<forall>y\<in>set xs. f y \<noteq> f x" by (metis imageI)
    then have "filter (\<lambda>y. f y = f x) xs = []"
      by (simp add: filter_empty_conv)
    with True show ?thesis by simp
  next
    case False
    with Cons.prems have "x \<in> set xs" "f a \<noteq> f x" by auto
    with Cons show ?thesis by simp
  qed
qed

subsection \<open>No pair twice\<close>

text \<open>
  C1: when the chats of the context hold no unordered pair of participants twice and no
  two paired users share a user ID, the list returned by \<open>createCombinedChatList\<close>
  holds no unordered pair twice, with or without a profile.
\<close>

theorem no_duplicate_pairs:
  assumes contacts: "distinct (map userId pairedUsers)"
      and chats: "distinct (map participantPair chats)"
  shows "distinct (map participantPair (createCombinedChatList profile chats pairedUsers))"
proof (cases profile)
  case None
  then show ?thesis by (simp add: createCombinedChatList_def)
next
  case (Some p)
  let ?P = "\<lambda>u. existingChat chats (up_userId p) (userId u) = None"
  let ?ys = "filter ?P pairedUsers"
  have "distinct (map userId ?ys)"
    using contacts by (rule distinct_map_filter)
  then have "distinct (map ((\<lambda>i. {#up_userId p, i#}) \<circ> userId) ?ys)"
    unfolding map_comp_map [symmetric] o_apply
    by (subst distinct_map) (auto simp: inj_on_def)
  then have new: "distinct (map participantPair (map (newChat p) ?ys))"
    by (simp add: participantPair_newChat o_def)
  have disj: "set (map participantPair chats) \<inter> set (map participantPair (map (newChat p) ?ys)) = {}"
  proof (rule ccontr)
    assume "\<not> ?thesis"
    then obtain c u where c: "c \<in> set chats" and u: "u \<in> set pairedUsers" "?P u"
      and eq: "participantPair c = participantPair (newChat p u)"
      by auto
    from eq have "userId u \<in> set (participants c) \<and> up_userId p \<in> set (participants c)"
      by (intro pair_members) (simp add: participantPair_newChat)
    with c u(2) show False by (auto simp: existingChat_None)
  qed
  show ?thesis
    unfolding Some createCombinedChatList_Some map_append distinct_append
    using chats new disj by blast
qed

theorem no_duplicate_pairs_witness:
  "distinct (map userId [ex_alice, ex_bob])
   \<and> distinct (map participantPair [ex_bobChat])
   \<and> map participants (createCombinedChatList (Some ex_me) [ex_bobChat] [ex_alice, ex_bob])
       = [[''bob'', ''me''], [''alice'', ''me'']]
   \<and> distinct (map participantPair
        (createCombinedChatList (Some ex_me) [ex_bobChat] [ex_alice, ex_bob]))"
proof -
  have h1: "distinct (map userId [ex_alice, ex_bob])" by (simp add: ex_defs)
  have h2: "distinct (map participantPair [ex_bobChat])" by simp
  have v: "map participants (createCombinedChatList (Some ex_me) [ex_bobChat] [ex_alice, ex_bob])
       = [[''bob'', ''me''], [''alice'', ''me'']]"
    by (simp add: ex_defs eval_defs)
  from no_duplicate_pairs [OF h1 h2, of "Some ex_me"] h1 h2 v show ?thesis by blast
qed

subsection \<open>One placeholder for a paired user without a chat, none otherwise\<close>

text \<open>
  C2: let no two paired users share a user ID and let \<open>C\<close> be a paired user. If no chat
  of the context has both the own ID and the ID of \<open>C\<close> among its participants, the
  result has exactly one entry for that pair, the placeholder of \<open>C\<close>: its participants
  are the sorted pair, its chat ID is the sorted pair joined by an underscore, it is
  pending, its unread count is 0 and it has no last message. If some chat has both IDs,
  none of the entries appended after the chats is for that pair, and the entries of the
  result for that pair are those of the context.
\<close>

theorem one_placeholder_per_contact:
  assumes contacts: "distinct (map userId pairedUsers)"
      and C: "C \<in> set pairedUsers"
  shows "(existingChat chats (up_userId p) (userId C) = None \<longrightarrow>
            filter (\<lambda>e. participantPair e = {#up_userId p, userId C#})
              (createCombinedChatList (Some p) chats pairedUsers) = [newChat p C]
          \<and> participants (newChat p C) = sort [up_userId p, userId C]
          \<and> chatId (newChat p C) = join (sort [up_userId p, userId C]) ''_''
          \<and> isPending (newChat p C) = Some True
          \<and> unreadCount (newChat p C) = 0
          \<and> lastMessage (newChat p C) = None)
       \<and> (existingChat chats (up_userId p) (userId C) \<noteq> None \<longrightarrow>
            filter (\<lambda>e. participantPair e = {#up_userId p, userId C#})
              (drop (length chats) (createCombinedChatList (Some p) chats pairedUsers)) = []
          \<and> filter (\<lambda>e. participantPair e = {#up_userId p, userId C#})
              (createCombinedChatList (Some p) chats pairedUsers)
            = filter (\<lambda>e. participantPair e = {#up_userId p, userId C#}) chats)"
proof -
  let ?P = "\<lambda>u. existingChat chats (up_userId p) (userId u) = None"
  let ?ys = "filter ?P pairedUsers"
  let ?is = "\<lambda>e. participantPair e = {#up_userId p, userId C#}"
  have new: "filter ?is (map (newChat p) ?ys) =
      map (newChat p) (filter (\<lambda>u. userId u = userId C) ?ys)"
    by (simp add: filter_map o_def participantPair_newChat)
  have fields: "participants (newChat p C) = sort [up_userId p, userId C]
      \<and> chatId (newChat p C) = join (sort [up_userId p, userId C]) ''_''
      \<and> isPending (newChat p C) = Some True \<and> unreadCount (newChat p C) = 0
      \<and> lastMessage (newChat p C) = None"
    by (simp add: newChat_def Let_def sortedParticipantIds_def)
  have absent: "filter ?is (createCombinedChatList (Some p) chats pairedUsers) = [newChat p C]"
    if none: "?P C"
  proof -
    have "filter ?is chats = []"
      using none by (auto simp: filter_empty_conv existingChat_None dest: pair_members)
    moreover have "filter (\<lambda>u. userId u = userId C) ?ys = [C]"
    proof (rule filter_key_single)
      show "distinct (map userId ?ys)" using contacts by (rule distinct_map_filter)
      show "C \<in> set ?ys" using C none by simp
    qed
    ultimately show ?thesis
      by (simp add: createCombinedChatList_Some new)
  qed
  have present:
    "filter ?is (drop (length chats) (createCombinedChatList (Some p) chats pairedUsers)) = []
      \<and> filter ?is (createCombinedChatList (Some p) chats pairedUsers) = filter ?is chats"
    if some: "\<not> ?P C"
  proof -
    have "filter (\<lambda>u. userId u = userId C) ?ys = []"
      using some by (auto simp: filter_empty_conv)
    then show ?thesis
      by (simp add: createCombinedChatList_Some new)
  qed
  show ?thesis using fields absent present by blast
qed

theorem one_placeholder_per_contact_witness:
  "distinct (map userId [ex_alice, ex_bob])
   \<and> existingChat [ex_bobChat] (up_userId ex_me) (userId ex_alice) = None
   \<and> existingChat [ex_bobChat] (up_userId ex_me) (userId ex_bob) = Some ex_bobChat
   \<and> filter (\<lambda>e. participantPair e = {#up_userId ex_me, userId ex_alice#})
        (createCombinedChatList (Some ex_me) [ex_bobChat] [ex_alice, ex_bob])
       = [newChat ex_me ex_alice]
   \<and> participants (newChat ex_me ex_alice) = [''alice'', ''me'']
   \<and> chatId (newChat ex_me ex_alice) = ''alice_me''
   \<and> filter (\<lambda>e. participantPair e = {#up_userId ex_me, userId ex_bob#})
        (createCombinedChatList (Some ex_me) [ex_bobChat] [ex_alice, ex_bob]) = [ex_bobChat]"
proof -
  have h1: "distinct (map userId [ex_alice, ex_bob])" by (simp add: ex_defs)
  have a: "ex_alice \<in> set [ex_alice, ex_bob]" and b: "ex_bob \<in> set [ex_alice, ex_bob]"
    by simp_all
  have na: "existingChat [ex_bobChat] (up_userId ex_me) (userId ex_alice) = None"
    by (simp add: ex_defs eval_defs)
  have sb: "existingChat [ex_bobChat] (up_userId ex_me) (userId ex_bob) = Some ex_bobChat"
    by (simp add: ex_defs eval_defs)
  have pa: "participants (newChat ex_me ex_alice) = [''alice'', ''me'']"
    and ca: "chatId (newChat ex_me ex_alice) = ''alice_me''"
    by (simp_all add: ex_defs eval_defs)
  have fb: "filter (\<lambda>e. participantPair e = {#up_userId ex_me, userId ex_bob#}) [ex_bobChat]
      = [ex_bobChat]"
    by (simp add: ex_defs eval_defs)
  from one_placeholder_per_contact [OF h1 a, of "[ex_bobChat]" ex_me]
       one_placeholder_per_contact [OF h1 b, of "[ex_bobChat]" ex_me] h1 na sb pa ca fb
  show ?thesis by simp
qed

subsection \<open>Chats first, placeholders after\<close>

text \<open>
  C6: for a loaded profile the result is the chats of the context, unchanged and in
  their order, followed by the placeholders, each of them pending. Without a profile
  the function returns before it reads the chats, and there is no list to order.
\<close>

theorem real_chats_first:
  "createCombinedChatList (Some p) chats pairedUsers =
     chats @ map (newChat p)
       (filter (\<lambda>u. existingChat chats (up_userId p) (userId u) = None) pairedUsers)
   \<and> take (length chats) (createCombinedChatList (Some p) chats pairedUsers) = chats
   \<and> (\<forall>e\<in>set (drop (length chats) (createCombinedChatList (Some p) chats pairedUsers)).
        isPending e = Some True)"
  by (auto simp: createCombinedChatList_Some newChat_def Let_def)

theorem real_chats_first_witness:
  "map chatId (createCombinedChatList (Some ex_me) [ex_bobChat] [ex_alice, ex_bob]) =
     [''bob_me'', ''alice_me'']
   \<and> take (length [ex_bobChat]) (createCombinedChatList (Some ex_me) [ex_bobChat] [ex_alice, ex_bob])
       = [ex_bobChat]
   \<and> map isPending (drop (length [ex_bobChat])
        (createCombinedChatList (Some ex_me) [ex_bobChat] [ex_alice, ex_bob])) = [Some True]"
  using real_chats_first [of ex_me "[ex_bobChat]" "[ex_alice, ex_bob]"]
  by (simp add: ex_defs existingChat_def arr_includes_def newChat_def Let_def
        sortedParticipantIds_def)

subsection \<open>The chat ID of a pair\<close>

text \<open>
  C7: the sorted pair joined by an underscore is the same for both orders of the two
  IDs, and so the placeholder that one user builds for the other has the chat ID of the
  placeholder that the other builds for the one.
\<close>

theorem chatId_commutative:
  "join (sortedParticipantIds a b) ''_'' = join (sortedParticipantIds b a) ''_''
   \<and> (up_userId p' = userId u \<and> userId u' = up_userId p \<longrightarrow>
        chatId (newChat p u) = chatId (newChat p' u'))"
  by (simp add: newChat_def Let_def sortedParticipantIds_commute [of a b]
        sortedParticipantIds_commute [of "userId u" "up_userId p"])

theorem chatId_commutative_witness:
  "up_userId \<lparr> up_userId = ''bob'', up_displayName = ''Robert'', up_avatar = None \<rparr> = userId ex_bob
   \<and> userId ex_self = up_userId ex_me
   \<and> chatId (newChat ex_me ex_bob) = ''bob_me''
   \<and> chatId (newChat \<lparr> up_userId = ''bob'', up_displayName = ''Robert'', up_avatar = None \<rparr> ex_self)
       = ''bob_me''"
  using chatId_commutative [of "''me''" "''bob''"
      "\<lparr> up_userId = ''bob'', up_displayName = ''Robert'', up_avatar = None \<rparr>" ex_bob ex_self ex_me]
  by (simp add: ex_defs newChat_def Let_def sortedParticipantIds_def)

subsection \<open>No profile\<close>

text \<open>
  C8: without a user profile \<open>createCombinedChatList\<close> returns the empty list, whatever
  the chats and the paired users.
\<close>

theorem no_profile_empty: "createCombinedChatList None chats pairedUsers = []"
  by (simp add: createCombinedChatList_def)

subsection \<open>The search filter keeps a subsequence\<close>

lemma filter_js_Inr:
  "filter_js f xs = Inr ys \<Longrightarrow> ys = filter (\<lambda>x. f x = Inr True) xs"
proof (induction xs arbitrary: ys)
  case Nil
  then show ?case by simp
next
  case (Cons x xs)
  then show ?case by (auto split: sum.splits if_splits)
qed

lemma filter_js_total:
  "(\<forall>x\<in>set xs. \<exists>b. f x = Inr b) \<Longrightarrow> filter_js f xs = Inr (filter (\<lambda>x. f x = Inr True) xs)"
  by (induction xs) auto

text \<open>
  C10: a list returned by the filter is a subsequence of the list it filters: its entries
  are entries of that list, none more often than there, and in the same relative order.
  The filter returns a list, the entries its callback accepts, whenever the callback
  throws on no entry.
\<close>

theorem filter_subsequence:
  "(filteredChats profile searchQuery allChats = Inr kept \<longrightarrow>
      subseq kept allChats \<and> mset kept \<subseteq># mset allChats \<and> set kept \<subseteq> set allChats)
   \<and> ((\<forall>c\<in>set allChats. \<exists>b. chatMatches profile searchQuery c = Inr b) \<longrightarrow>
        filteredChats profile searchQuery allChats =
          Inr (filter (\<lambda>c. chatMatches profile searchQuery c = Inr True) allChats))"
proof -
  have "subseq kept allChats \<and> mset kept \<subseteq># mset allChats \<and> set kept \<subseteq> set allChats"
    if "filteredChats profile searchQuery allChats = Inr kept"
  proof -
    from that have "kept = filter (\<lambda>c. chatMatches profile searchQuery c = Inr True) allChats"
      unfolding filteredChats_def by (rule filter_js_Inr)
    then show ?thesis by simp
  qed
  moreover have "filteredChats profile searchQuery allChats =
          Inr (filter (\<lambda>c. chatMatches profile searchQuery c = Inr True) allChats)"
    if "\<forall>c\<in>set allChats. \<exists>b. chatMatches profile searchQuery c = Inr b"
    unfolding filteredChats_def using that by (rule filter_js_total)
  ultimately show ?thesis by blast
qed

text \<open>The callback on the two example chats.\<close>

lemma chatMatches_bob:
  "chatMatches (Some ex_me) q ex_bobChat = Inr (str_includes ''robert'' (toLowerCase q))"
  by (simp add: chatMatches_def otherParticipantId_def getProperty_def ex_defs
        toLowerCase_def lowerUnit_def char_of_def bit_Suc_0_iff)

lemma chatMatches_foreign:
  "chatMatches (Some ex_me) q ex_foreignChat = Inr (str_includes ''carol'' (toLowerCase q))"
  by (simp add: chatMatches_def otherParticipantId_def getProperty_def ex_defs
        toLowerCase_def lowerUnit_def char_of_def bit_Suc_0_iff)

theorem filter_subsequence_witness:
  "chatMatches (Some ex_me) ''ROB'' ex_bobChat = Inr True
   \<and> chatMatches (Some ex_me) ''ROB'' ex_foreignChat = Inr False
   \<and> filteredChats (Some ex_me) ''ROB'' [ex_foreignChat, ex_bobChat] = Inr [ex_bobChat]
   \<and> subseq [ex_bobChat] [ex_foreignChat, ex_bobChat]"
proof -
  have l: "toLowerCase ''ROB'' = ''rob''"
    by (simp add: toLowerCase_def lowerUnit_def char_of_def bit_Suc_0_iff)
  have b: "chatMatches (Some ex_me) ''ROB'' ex_bobChat = Inr True"
    and f: "chatMatches (Some ex_me) ''ROB'' ex_foreignChat = Inr False"
    by (simp_all add: chatMatches_bob chatMatches_foreign l)
  note T = filter_subsequence [where profile = "Some ex_me" and searchQuery = "''ROB''"
      and allChats = "[ex_foreignChat, ex_bobChat]" and kept = "[ex_bobChat]"]
  from T [THEN conjunct2] b f
  have v: "filteredChats (Some ex_me) ''ROB'' [ex_foreignChat, ex_bobChat] = Inr [ex_bobChat]"
    by auto
  with T [THEN conjunct1] have "subseq [ex_bobChat] [ex_foreignChat, ex_bobChat]" by blast
  with b f v show ?thesis by blast
qed

subsection \<open>A paired user with the own ID\<close>

lemma participants_newChat_cases:
  "participants (newChat p u) =
     (if up_userId p \<le> userId u then [up_userId p, userId u] else [userId u, up_userId p])"
  by (simp add: participants_newChat sortedParticipantIds_def)

lemma distinct_newChat: "distinct (participants (newChat p u)) \<longleftrightarrow> userId u \<noteq> up_userId p"
  by (auto simp: participants_newChat_cases)

lemma existingChat_self:
  "existingChat chats s s = None \<longleftrightarrow> (\<forall>c\<in>set chats. s \<notin> set (participants c))"
  by (simp add: existingChat_None)

lemma self_chat_hidden:
  assumes "participants e = [up_userId p, up_userId p]"
  shows "chatMatches (Some p) searchQuery e = Inr False
     \<and> renderChat formatTime (Some p) pairedUsers e = Inr None"
  using assms by (simp add: chatMatches_def renderChat_def otherParticipantId_def)

text \<open>
  C3, as it holds: \<open>createCombinedChatList\<close> has no check against a paired user with the
  own ID. An appended placeholder has two distinct participants or is the chat of the own
  ID with itself; such a self-chat is appended exactly when some paired user has the own
  ID and no chat of the context has the own ID among its participants. So when the chats
  of the context each have distinct participants and one of them includes the own ID, every
  entry of the result has distinct participants. A self-chat never passes the filter and
  no card is rendered for it.
\<close>

theorem self_pairing:
  "(\<forall>e\<in>set (drop (length chats) (createCombinedChatList (Some p) chats pairedUsers)).
      distinct (participants e) \<or> participants e = [up_userId p, up_userId p])
   \<and> ((\<exists>e\<in>set (drop (length chats) (createCombinedChatList (Some p) chats pairedUsers)).
         \<not> distinct (participants e))
      = ((\<exists>u\<in>set pairedUsers. userId u = up_userId p)
         \<and> (\<forall>c\<in>set chats. up_userId p \<notin> set (participants c))))
   \<and> ((\<forall>c\<in>set chats. distinct (participants c))
        \<and> (\<exists>c\<in>set chats. up_userId p \<in> set (participants c)) \<longrightarrow>
      (\<forall>e\<in>set (createCombinedChatList (Some p) chats pairedUsers). distinct (participants e)))
   \<and> (participants e = [up_userId p, up_userId p] \<longrightarrow>
        chatMatches (Some p) searchQuery e = Inr False
        \<and> renderChat formatTime (Some p) pairedUsers e = Inr None)"
proof -
  let ?P = "\<lambda>u. existingChat chats (up_userId p) (userId u) = None"
  let ?new = "drop (length chats) (createCombinedChatList (Some p) chats pairedUsers)"
  have new: "?new = map (newChat p) (filter ?P pairedUsers)"
    by (simp add: createCombinedChatList_Some)
  have a: "\<forall>e\<in>set ?new. distinct (participants e) \<or> participants e = [up_userId p, up_userId p]"
    unfolding new by (auto simp: participants_newChat_cases)
  have b: "(\<exists>e\<in>set ?new. \<not> distinct (participants e))
      = ((\<exists>u\<in>set pairedUsers. userId u = up_userId p)
         \<and> (\<forall>c\<in>set chats. up_userId p \<notin> set (participants c)))"
  proof
    assume "\<exists>e\<in>set ?new. \<not> distinct (participants e)"
    then obtain u where u: "u \<in> set pairedUsers" "?P u" "\<not> distinct (participants (newChat p u))"
      unfolding new by auto
    from u(3) have eq: "userId u = up_userId p" by (simp add: distinct_newChat)
    with u(2) have "\<forall>c\<in>set chats. up_userId p \<notin> set (participants c)"
      by (simp add: existingChat_self)
    with u(1) eq show "(\<exists>u\<in>set pairedUsers. userId u = up_userId p)
         \<and> (\<forall>c\<in>set chats. up_userId p \<notin> set (participants c))"
      by blast
  next
    assume r: "(\<exists>u\<in>set pairedUsers. userId u = up_userId p)
         \<and> (\<forall>c\<in>set chats. up_userId p \<notin> set (participants c))"
    then obtain u where u: "u \<in> set pairedUsers" "userId u = up_userId p" by blast
    from r u(2) have "?P u" by (simp add: existingChat_self)
    with u(1) have "newChat p u \<in> set ?new" unfolding new by simp
    moreover from u(2) have "\<not> distinct (participants (newChat p u))"
      by (simp add: distinct_newChat)
    ultimately show "\<exists>e\<in>set ?new. \<not> distinct (participants e)" by blast
  qed
  have c: "\<forall>e\<in>set (createCombinedChatList (Some p) chats pairedUsers). distinct (participants e)"
    if inv: "\<forall>c\<in>set chats. distinct (participants c)"
      and own: "\<exists>c\<in>set chats. up_userId p \<in> set (participants c)"
  proof
    fix e assume "e \<in> set (createCombinedChatList (Some p) chats pairedUsers)"
    then have "e \<in> set chats \<or> e \<in> set ?new"
      by (auto simp: createCombinedChatList_Some)
    then show "distinct (participants e)"
    proof
      assume "e \<in> set chats" with inv show ?thesis by blast
    next
      assume e: "e \<in> set ?new"
      show ?thesis
      proof (rule ccontr)
        assume "\<not> distinct (participants e)"
        with e b have "\<forall>c\<in>set chats. up_userId p \<notin> set (participants c)" by blast
        with own show False by blast
      qed
    qed
  qed
  from a b c self_chat_hidden [of e p searchQuery formatTime pairedUsers] show ?thesis by blast
qed

theorem self_pairing_witness:
  "participants (newChat ex_me ex_self) = [up_userId ex_me, up_userId ex_me]
   \<and> createCombinedChatList (Some ex_me) [] [ex_self] = [newChat ex_me ex_self]
   \<and> filteredChats (Some ex_me) [] (createCombinedChatList (Some ex_me) [] [ex_self]) = Inr []
   \<and> distinct (participants ex_bobChat)
   \<and> up_userId ex_me \<in> set (participants ex_bobChat)
   \<and> list_all (distinct \<circ> participants)
        (createCombinedChatList (Some ex_me) [ex_bobChat] [ex_self, ex_alice])"
proof -
  have g1: "distinct (participants ex_bobChat)"
    and g2: "up_userId ex_me \<in> set (participants ex_bobChat)"
    by (simp_all add: ex_defs)
  have v2: "createCombinedChatList (Some ex_me) [] [ex_self] = [newChat ex_me ex_self]"
    by (simp add: createCombinedChatList_def addPlaceholder_def existingChat_def)
  have v3: "participants (newChat ex_me ex_self) = [up_userId ex_me, up_userId ex_me]"
    by (simp add: ex_defs newChat_def Let_def sortedParticipantIds_def)
  have h1: "\<forall>c\<in>set [ex_bobChat]. distinct (participants c)"
    and h2: "\<exists>c\<in>set [ex_bobChat]. up_userId ex_me \<in> set (participants c)"
    by (simp_all add: ex_defs)
  note hidden = self_pairing [where chats = "[]" and p = ex_me and pairedUsers = "[ex_self]"
      and e = "newChat ex_me ex_self" and searchQuery = "[]",
      THEN conjunct2, THEN conjunct2, THEN conjunct2]
  from hidden v3 have "chatMatches (Some ex_me) [] (newChat ex_me ex_self) = Inr False" by blast
  then have v4: "filteredChats (Some ex_me) [] (createCombinedChatList (Some ex_me) [] [ex_self])
      = Inr []"
    by (simp add: v2 filteredChats_def)
  note kept = self_pairing [where chats = "[ex_bobChat]" and p = ex_me
      and pairedUsers = "[ex_self, ex_alice]", THEN conjunct2, THEN conjunct2, THEN conjunct1]
  from kept h1 h2
  have v5: "\<forall>e\<in>set (createCombinedChatList (Some ex_me) [ex_bobChat] [ex_self, ex_alice]).
        distinct (participants e)"
    by blast
  then have v6: "list_all (distinct \<circ> participants)
        (createCombinedChatList (Some ex_me) [ex_bobChat] [ex_self, ex_alice])"
    by (simp add: list_all_iff)
  from v2 v3 v4 g1 g2 v6 show ?thesis by blast
qed


text \<open>
  With no chats and a paired user that has the own ID, the result is the self-chat:
  C3 as stated fails.
\<close>

theorem self_pairing_counterexample:
  "userId ex_self = up_userId ex_me
   \<and> map participants (createCombinedChatList (Some ex_me) [] [ex_self]) = [[''me'', ''me'']]"
  by (simp add: ex_defs eval_defs)


subsection \<open>Chats without the own ID\<close>

lemma otherParticipantId_foreign:
  "up_userId p \<notin> set (participants c) \<Longrightarrow>
     otherParticipantId p c = (case participants c of [] \<Rightarrow> None | other # rest \<Rightarrow> Some other)"
  by (cases "participants c") (auto simp: otherParticipantId_def)

lemma resolvedDisplayName_stored:
  "\<exists>name. resolvedDisplayName pairedUser (Some stored) = Some name"
  by (simp add: resolvedDisplayName_def or_undefined_def split: option.split)

lemma chatCardOf_stored_not_null:
  "chatCardOf formatTime pairedUsers c other (Some stored) storedAvatar \<noteq> Inr None"
proof -
  obtain name where
    "resolvedDisplayName (find (\<lambda>user. userId user = other) pairedUsers) (Some stored) = Some name"
    using resolvedDisplayName_stored by blast
  then show ?thesis by (simp add: chatCardOf_def split: sum.split)
qed

lemma chatCardOf_stored_card:
  assumes "timeLabel formatTime c = Inr label"
  shows "\<exists>item. chatCardOf formatTime pairedUsers c other (Some stored) storedAvatar
           = Inr (Some item)"
proof -
  obtain name where
    "resolvedDisplayName (find (\<lambda>user. userId user = other) pairedUsers) (Some stored) = Some name"
    using resolvedDisplayName_stored by blast
  with assms show ?thesis by (simp add: chatCardOf_def)
qed

lemma foreign_chatMatches:
  assumes foreign: "up_userId p \<notin> set (participants c)"
      and plain: "case participants c of [] \<Rightarrow> True
                  | other # rest \<Rightarrow> getProperty (participantDetails c) other \<noteq> Inherited"
  shows "chatMatches (Some p) searchQuery c =
           Inr (\<exists>other rest d. participants c = other # rest \<and> other \<noteq> [] \<and>
                  participantDetails c other = Some d \<and>
                  str_includes (toLowerCase (pd_displayName d)) (toLowerCase searchQuery))"
proof (cases "participants c")
  case Nil
  with foreign show ?thesis by (simp add: chatMatches_def otherParticipantId_foreign)
next
  case (Cons other rest)
  with plain have np: "getProperty (participantDetails c) other \<noteq> Inherited" by simp
  show ?thesis
  proof (cases "participantDetails c other")
    case None
    with np have "getProperty (participantDetails c) other = Missing"
      by (simp add: getProperty_def split: if_splits)
    with foreign Cons None show ?thesis
      by (simp add: chatMatches_def otherParticipantId_foreign)
  next
    case (Some d)
    then have "getProperty (participantDetails c) other = Own d"
      by (simp add: getProperty_def)
    with foreign Cons Some show ?thesis
      by (simp add: chatMatches_def otherParticipantId_foreign)
  qed
qed

lemma foreign_renderChat:
  assumes foreign: "up_userId p \<notin> set (participants c)"
      and plain: "case participants c of [] \<Rightarrow> True
                  | other # rest \<Rightarrow> getProperty (participantDetails c) other \<noteq> Inherited"
  shows "(renderChat formatTime (Some p) pairedUsers c = Inr None) =
           (\<not> (\<exists>other rest d. participants c = other # rest \<and> other \<noteq> [] \<and>
                  participantDetails c other = Some d))"
    and "(\<exists>other rest d. participants c = other # rest \<and> other \<noteq> [] \<and>
                  participantDetails c other = Some d)
         \<and> (\<exists>label. timeLabel formatTime c = Inr label) \<longrightarrow>
         (\<exists>item. renderChat formatTime (Some p) pairedUsers c = Inr (Some item))"
proof -
  show "(renderChat formatTime (Some p) pairedUsers c = Inr None) =
           (\<not> (\<exists>other rest d. participants c = other # rest \<and> other \<noteq> [] \<and>
                  participantDetails c other = Some d))"
  proof (cases "participants c")
    case Nil
    with foreign show ?thesis by (simp add: renderChat_def otherParticipantId_foreign)
  next
    case (Cons other rest)
    with plain have np: "getProperty (participantDetails c) other \<noteq> Inherited" by simp
    show ?thesis
    proof (cases "participantDetails c other")
      case None
      with np have "getProperty (participantDetails c) other = Missing"
        by (simp add: getProperty_def split: if_splits)
      with foreign Cons None show ?thesis
        by (simp add: renderChat_def otherParticipantId_foreign)
    next
      case (Some d)
      then have "getProperty (participantDetails c) other = Own d"
        by (simp add: getProperty_def)
      with foreign Cons Some show ?thesis
        by (simp add: renderChat_def otherParticipantId_foreign chatCardOf_stored_not_null)
    qed
  qed
  show "(\<exists>other rest d. participants c = other # rest \<and> other \<noteq> [] \<and>
                  participantDetails c other = Some d)
         \<and> (\<exists>label. timeLabel formatTime c = Inr label) \<longrightarrow>
         (\<exists>item. renderChat formatTime (Some p) pairedUsers c = Inr (Some item))"
  proof
    assume a: "(\<exists>other rest d. participants c = other # rest \<and> other \<noteq> [] \<and>
                  participantDetails c other = Some d)
         \<and> (\<exists>label. timeLabel formatTime c = Inr label)"
    then obtain other rest d label where o: "participants c = other # rest" "other \<noteq> []"
      "participantDetails c other = Some d" and t: "timeLabel formatTime c = Inr label"
      by blast
    from o(3) have "getProperty (participantDetails c) other = Own d"
      by (simp add: getProperty_def)
    with foreign o chatCardOf_stored_card [OF t]
    show "\<exists>item. renderChat formatTime (Some p) pairedUsers c = Inr (Some item)"
      by (simp add: renderChat_def otherParticipantId_foreign)
  qed
qed

text \<open>
  C5, as it holds: neither the filter nor the card tests whether the own ID is among the
  participants. Take a chat whose participants do not include the own ID and whose first
  participant has an entry of its own in \<open>participantDetails\<close> or an ID that is not the
  name of an inherited member. The filter and the card take that first participant as the
  other one, and the filter throws nothing: the chat is accepted exactly when it has a
  first participant whose ID is not empty and has an entry, and the display name stored
  there contains the query, both in lower case; it is in a list the filter returns exactly
  when it is in the list filtered and accepted. The card callback returns \<open>null\<close>
  exactly when the chat has no first participant, or one with an empty ID or without an
  entry; otherwise it returns a card whenever the time label can be formatted.
\<close>

theorem foreign_chat_kept:
  assumes foreign: "up_userId p \<notin> set (participants c)"
      and plain: "case participants c of [] \<Rightarrow> True
                  | other # rest \<Rightarrow> getProperty (participantDetails c) other \<noteq> Inherited"
  shows "chatMatches (Some p) searchQuery c =
           Inr (\<exists>other rest d. participants c = other # rest \<and> other \<noteq> [] \<and>
                  participantDetails c other = Some d \<and>
                  str_includes (toLowerCase (pd_displayName d)) (toLowerCase searchQuery))
       \<and> (filteredChats (Some p) searchQuery allChats = Inr kept \<longrightarrow>
           (c \<in> set kept) =
             (c \<in> set allChats \<and>
              (\<exists>other rest d. participants c = other # rest \<and> other \<noteq> [] \<and>
                 participantDetails c other = Some d \<and>
                 str_includes (toLowerCase (pd_displayName d)) (toLowerCase searchQuery))))
       \<and> (renderChat formatTime (Some p) pairedUsers c = Inr None) =
           (\<not> (\<exists>other rest d. participants c = other # rest \<and> other \<noteq> [] \<and>
                  participantDetails c other = Some d))
       \<and> ((\<exists>other rest d. participants c = other # rest \<and> other \<noteq> [] \<and>
                  participantDetails c other = Some d)
           \<and> (\<exists>label. timeLabel formatTime c = Inr label) \<longrightarrow>
           (\<exists>item. renderChat formatTime (Some p) pairedUsers c = Inr (Some item)))"
proof -
  note m = foreign_chatMatches [OF foreign plain, of searchQuery]
  have "(c \<in> set kept) =
             (c \<in> set allChats \<and>
              (\<exists>other rest d. participants c = other # rest \<and> other \<noteq> [] \<and>
                 participantDetails c other = Some d \<and>
                 str_includes (toLowerCase (pd_displayName d)) (toLowerCase searchQuery)))"
    if "filteredChats (Some p) searchQuery allChats = Inr kept"
  proof -
    from that have "kept = filter (\<lambda>c. chatMatches (Some p) searchQuery c = Inr True) allChats"
      unfolding filteredChats_def by (rule filter_js_Inr)
    then show ?thesis by (simp add: m)
  qed
  with m foreign_renderChat [OF foreign plain, of formatTime pairedUsers]
  show ?thesis by blast
qed

lemma renderChat_foreign_example:
  "renderChat formatTime (Some ex_me) [] ex_foreignChat =
     Inr (Some \<lparr> card_key = ''carol_dave'', card_participantId = ''carol'',
                 card_displayName = ''Carol'', card_avatarSrc = None, card_badge = None,
                 card_dashed = False, card_time = [], card_subtitle = ''No messages yet'' \<rparr>)"
proof -
  have other: "otherParticipantId ex_me ex_foreignChat = Some ''carol''"
    by (simp add: ex_defs otherParticipantId_def)
  have det: "getProperty (participantDetails ex_foreignChat) ''carol'' =
      Own \<lparr> pd_displayName = ''Carol'', pd_avatar = None \<rparr>"
    by (simp add: ex_defs getProperty_def)
  have fields: "chatId ex_foreignChat = ''carol_dave''" "timeLabel formatTime ex_foreignChat = Inr []"
    "unreadBadge ex_foreignChat = None" "isPending ex_foreignChat = None"
    "subtitle ex_foreignChat = ''No messages yet''"
    by (simp_all add: ex_defs timeLabel_def unreadBadge_def subtitle_def)
  show ?thesis
    by (simp add: renderChat_def other det chatCardOf_def resolvedDisplayName_def
          or_undefined_def fields)
qed

theorem foreign_chat_kept_witness:
  "up_userId ex_me \<notin> set (participants ex_foreignChat)
   \<and> participants ex_foreignChat = ''carol'' # [''dave'']
   \<and> getProperty (participantDetails ex_foreignChat) ''carol''
       = Own \<lparr> pd_displayName = ''Carol'', pd_avatar = None \<rparr>
   \<and> str_includes (toLowerCase ''Carol'') (toLowerCase ''CAR'')
   \<and> chatMatches (Some ex_me) ''CAR'' ex_foreignChat = Inr True
   \<and> filteredChats (Some ex_me) ''CAR'' [ex_bobChat, ex_foreignChat] = Inr [ex_foreignChat]
   \<and> renderChat ex_formatUTC (Some ex_me) [] ex_foreignChat \<noteq> Inr None"
proof -
  have h: "up_userId ex_me \<notin> set (participants ex_foreignChat)" by (simp add: ex_defs)
  have p: "participants ex_foreignChat = ''carol'' # [''dave'']" by (simp add: ex_defs)
  have g: "getProperty (participantDetails ex_foreignChat) ''carol''
       = Own \<lparr> pd_displayName = ''Carol'', pd_avatar = None \<rparr>"
    by (simp add: ex_defs getProperty_def)
  have d: "participantDetails ex_foreignChat ''carol'' =
      Some \<lparr> pd_displayName = ''Carol'', pd_avatar = None \<rparr>"
    by (simp add: ex_defs)
  have plain: "case participants ex_foreignChat of [] \<Rightarrow> True
      | other # rest \<Rightarrow> getProperty (participantDetails ex_foreignChat) other \<noteq> Inherited"
    by (simp add: p g)
  have m: "str_includes (toLowerCase ''Carol'') (toLowerCase ''CAR'')"
    by (simp add: toLowerCase_def lowerUnit_def char_of_def bit_Suc_0_iff)
  have f: "filteredChats (Some ex_me) ''CAR'' [ex_bobChat, ex_foreignChat] = Inr [ex_foreignChat]"
    by (simp add: filteredChats_def chatMatches_bob chatMatches_foreign toLowerCase_def
          lowerUnit_def char_of_def bit_Suc_0_iff)
  note T = foreign_chat_kept [OF h plain, where searchQuery = "''CAR''"
      and allChats = "[ex_bobChat, ex_foreignChat]" and kept = "[ex_foreignChat]"
      and formatTime = ex_formatUTC and pairedUsers = "[]"]
  from T [THEN conjunct1] p d m
  have a: "chatMatches (Some ex_me) ''CAR'' ex_foreignChat = Inr True" by simp
  from T [THEN conjunct2, THEN conjunct2, THEN conjunct1] p d
  have b: "renderChat ex_formatUTC (Some ex_me) [] ex_foreignChat \<noteq> Inr None" by simp
  from h p g m a f b show ?thesis by blast
qed

text \<open>
  A chat between two other users, with the empty query: the filter keeps it and the page
  shows its card under the name of its first participant, so C5 as stated fails.
\<close>

theorem foreign_chat_counterexample:
  "up_userId ex_me \<notin> set (participants ex_foreignChat)
   \<and> filteredChats (Some ex_me) [] (createCombinedChatList (Some ex_me) [ex_foreignChat] [])
       = Inr [ex_foreignChat]
   \<and> renderChat ex_formatUTC (Some ex_me) [] ex_foreignChat =
       Inr (Some \<lparr> card_key = ''carol_dave'', card_participantId = ''carol'',
                   card_displayName = ''Carol'', card_avatarSrc = None, card_badge = None,
                   card_dashed = False, card_time = [], card_subtitle = ''No messages yet'' \<rparr>)
   \<and> ChatListPage ex_formatUTC True (Some ex_me) [ex_foreignChat] [] [] =
       Inr (Cards [Some \<lparr> card_key = ''carol_dave'', card_participantId = ''carol'',
                   card_displayName = ''Carol'', card_avatarSrc = None, card_badge = None,
                   card_dashed = False, card_time = [], card_subtitle = ''No messages yet'' \<rparr>])"
proof -
  have h: "up_userId ex_me \<notin> set (participants ex_foreignChat)" by (simp add: ex_defs)
  have all: "createCombinedChatList (Some ex_me) [ex_foreignChat] [] = [ex_foreignChat]"
    by (simp add: createCombinedChatList_def)
  have f: "filteredChats (Some ex_me) [] [ex_foreignChat] = Inr [ex_foreignChat]"
    by (simp add: filteredChats_def chatMatches_foreign toLowerCase_def)
  show ?thesis
    by (simp add: h all f ChatListPage_def renderChat_foreign_example)
qed

text \<open>
  Outside the condition on the first participant: an ID that names an inherited member
  and has no entry of its own makes the callback throw, and with it the filter.
\<close>

lemma inherited_key_throws:
  "up_userId ex_me \<notin> set [''constructor'', ''dave'']
   \<and> chatMatches (Some ex_me) searchQuery
        (ex_foreignChat \<lparr> participants := [''constructor'', ''dave''] \<rparr>) = Inl TypeError
   \<and> filteredChats (Some ex_me) searchQuery
        [ex_bobChat, ex_foreignChat \<lparr> participants := [''constructor'', ''dave''] \<rparr>]
       = Inl TypeError"
proof -
  have g: "getProperty (participantDetails ex_foreignChat) ''constructor'' = Inherited"
    by (simp add: ex_defs getProperty_def objectPrototypeKeys_def)
  have m: "chatMatches (Some ex_me) searchQuery
        (ex_foreignChat \<lparr> participants := [''constructor'', ''dave''] \<rparr>) = Inl TypeError"
    by (simp add: chatMatches_def otherParticipantId_def g) (simp add: ex_defs)
  then show ?thesis
    by (simp add: filteredChats_def chatMatches_bob) (simp add: ex_defs)
qed


subsection \<open>The name that is searched and the name that is shown\<close>

text \<open>
  C4 fails on the code: the filter compares the query with the display name stored in
  \<open>participantDetails\<close> and never looks at the paired users, while the card shows the
  name resolved from the paired user first. For the chat with the paired user that is
  stored as Robert and nicknamed Bob, the card shows Bob, the query bob is contained in
  that name, and yet the filter drops the chat and the page shows its empty state; the
  query rob keeps the chat.
\<close>

theorem search_ignores_nickname:
  "renderChat formatTime (Some ex_me) [ex_bob] ex_bobChat =
     Inr (Some \<lparr> card_key = ''bob_me'', card_participantId = ''bob'', card_displayName = ''Bob'',
                 card_avatarSrc = None, card_badge = Some (JsxText ''9+''), card_dashed = False,
                 card_time = [], card_subtitle = ''No messages yet'' \<rparr>)
   \<and> str_includes (toLowerCase ''Bob'') (toLowerCase ''bob'')
   \<and> createCombinedChatList (Some ex_me) [ex_bobChat] [ex_bob] = [ex_bobChat]
   \<and> filteredChats (Some ex_me) ''bob'' (createCombinedChatList (Some ex_me) [ex_bobChat] [ex_bob])
       = Inr []
   \<and> ChatListPage formatTime True (Some ex_me) [ex_bobChat] [ex_bob] ''bob'' = Inr NoChatsYet
   \<and> filteredChats (Some ex_me) ''rob'' [ex_bobChat] = Inr [ex_bobChat]"
proof -
  have l: "toLowerCase ''Bob'' = ''bob''" "toLowerCase ''bob'' = ''bob''"
    "toLowerCase ''rob'' = ''rob''"
    by (simp_all add: toLowerCase_def lowerUnit_def char_of_def bit_Suc_0_iff)
  have all: "createCombinedChatList (Some ex_me) [ex_bobChat] [ex_bob] = [ex_bobChat]"
    by (simp add: ex_defs eval_defs)
  have other: "otherParticipantId ex_me ex_bobChat = Some ''bob''"
    by (simp add: ex_defs otherParticipantId_def)
  have det: "getProperty (participantDetails ex_bobChat) ''bob'' =
      Own \<lparr> pd_displayName = ''Robert'', pd_avatar = None \<rparr>"
    by (simp add: ex_defs getProperty_def)
  have fnd: "userId ex_bob = ''bob''"
    by (simp add: ex_defs)
  have name: "resolvedDisplayName (Some ex_bob) (Some ''Robert'') = Some ''Bob''"
    by (simp add: ex_defs resolvedDisplayName_def or_undefined_def)
  have fields: "chatId ex_bobChat = ''bob_me''" "timeLabel formatTime ex_bobChat = Inr []"
    "unreadBadge ex_bobChat = Some (JsxText ''9+'')" "isPending ex_bobChat = None"
    "subtitle ex_bobChat = ''No messages yet''"
    by (simp_all add: ex_defs timeLabel_def unreadBadge_def subtitle_def)
  have card: "renderChat formatTime (Some ex_me) [ex_bob] ex_bobChat =
     Inr (Some \<lparr> card_key = ''bob_me'', card_participantId = ''bob'', card_displayName = ''Bob'',
                 card_avatarSrc = None, card_badge = Some (JsxText ''9+''), card_dashed = False,
                 card_time = [], card_subtitle = ''No messages yet'' \<rparr>)"
    by (simp add: renderChat_def other det chatCardOf_def fnd name fields)
  have no: "chatMatches (Some ex_me) ''bob'' ex_bobChat = Inr False"
    by (simp add: chatMatches_bob l)
  have yes: "chatMatches (Some ex_me) ''rob'' ex_bobChat = Inr True"
    by (simp add: chatMatches_bob l)
  from no have f: "filteredChats (Some ex_me) ''bob'' [ex_bobChat] = Inr []"
    by (simp add: filteredChats_def)
  from yes have g: "filteredChats (Some ex_me) ''rob'' [ex_bobChat] = Inr [ex_bobChat]"
    by (simp add: filteredChats_def)
  have page: "ChatListPage formatTime True (Some ex_me) [ex_bobChat] [ex_bob] ''bob'' = Inr NoChatsYet"
    by (simp add: ChatListPage_def all f)
  from card l all f g page show ?thesis by simp
qed

subsection \<open>The unread badge\<close>

text \<open>
  C9: for a chat with a non-negative unread count the badge is there exactly when the
  count is positive; above 9 it shows the text 9+, and from 1 to 9 it shows the count
  itself, one decimal digit. A card rendered for the chat carries this badge, and a chat
  in a list the filter returns is an entry of the list that was filtered, its count as
  stored.
\<close>

theorem unread_badge:
  assumes "0 \<le> unreadCount c"
  shows "(unreadBadge c \<noteq> None) = (0 < unreadCount c)
     \<and> (9 < unreadCount c \<longrightarrow>
          unreadBadge c = Some (JsxText ''9+'')
          \<and> Option.bind (unreadBadge c) shown = Some ''9+'')
     \<and> (0 < unreadCount c \<and> unreadCount c \<le> 9 \<longrightarrow>
          unreadBadge c = Some (JsxNumber (unreadCount c))
          \<and> Option.bind (unreadBadge c) shown = Some (decimal (nat (unreadCount c)))
          \<and> decimal (nat (unreadCount c)) = [char_of (48 + nat (unreadCount c))])
     \<and> (renderChat formatTime profile pairedUsers c = Inr (Some item) \<longrightarrow>
          card_badge item = unreadBadge c)
     \<and> (filteredChats profile searchQuery allChats = Inr kept \<and> c \<in> set kept \<longrightarrow>
          c \<in> set allChats)"
proof -
  have card_of: "card_badge item = unreadBadge c"
    if "chatCardOf formatTime pairedUsers c other storedName storedAvatar = Inr (Some item)"
    for other storedName storedAvatar
    using that by (auto simp: chatCardOf_def split: option.splits sum.splits)
  have shown_card: "card_badge item = unreadBadge c"
    if "renderChat formatTime profile pairedUsers c = Inr (Some item)"
    using that card_of
    by (auto simp: renderChat_def split: option.splits if_splits property.splits)
  have small: "decimal (nat (unreadCount c)) = [char_of (48 + nat (unreadCount c))]"
    if "unreadCount c \<le> 9"
  proof -
    from that have "nat (unreadCount c) < 10" by simp
    then show ?thesis by (subst decimal.simps) simp
  qed
  have kept: "c \<in> set allChats"
    if "filteredChats profile searchQuery allChats = Inr kept" "c \<in> set kept"
  proof -
    from that(1) have "kept = filter (\<lambda>c. chatMatches profile searchQuery c = Inr True) allChats"
      unfolding filteredChats_def by (rule filter_js_Inr)
    with that(2) show ?thesis by simp
  qed
  have badge: "(unreadBadge c \<noteq> None) = (0 < unreadCount c)
     \<and> (9 < unreadCount c \<longrightarrow>
          unreadBadge c = Some (JsxText ''9+'')
          \<and> Option.bind (unreadBadge c) shown = Some ''9+'')
     \<and> (0 < unreadCount c \<and> unreadCount c \<le> 9 \<longrightarrow>
          unreadBadge c = Some (JsxNumber (unreadCount c))
          \<and> Option.bind (unreadBadge c) shown = Some (decimal (nat (unreadCount c))))"
    using assms by (auto simp: unreadBadge_def shown_def)
  from badge small shown_card kept show ?thesis by blast
qed

theorem unread_badge_witness:
  "0 \<le> unreadCount ex_bobChat \<and> unreadCount ex_bobChat = 12
   \<and> Option.bind (unreadBadge ex_bobChat) shown = Some ''9+''
   \<and> Option.bind (unreadBadge (ex_bobChat \<lparr> unreadCount := 9 \<rparr>)) shown = Some ''9''
   \<and> unreadBadge (ex_bobChat \<lparr> unreadCount := 0 \<rparr>) = None"
proof -
  have h12: "0 \<le> unreadCount ex_bobChat" and v12: "unreadCount ex_bobChat = 12"
    by (simp_all add: ex_defs)
  have h9: "0 \<le> unreadCount (ex_bobChat \<lparr> unreadCount := 9 \<rparr>)"
    and h0: "0 \<le> unreadCount (ex_bobChat \<lparr> unreadCount := 0 \<rparr>)" by simp_all
  have d: "decimal (nat 9) = ''9''"
    by (simp add: decimal.simps char_of_def bit_Suc_0_iff)
  from unread_badge [OF h12, THEN conjunct2, THEN conjunct1] v12
  have a: "Option.bind (unreadBadge ex_bobChat) shown = Some ''9+''" by (simp add: shown_def)
  from unread_badge [OF h9, THEN conjunct2, THEN conjunct2, THEN conjunct1] d
  have b: "Option.bind (unreadBadge (ex_bobChat \<lparr> unreadCount := 9 \<rparr>)) shown = Some ''9''"
    by (simp add: shown_def)
  from unread_badge [OF h0, THEN conjunct1]
  have c: "unreadBadge (ex_bobChat \<lparr> unreadCount := 0 \<rparr>) = None" by simp
  from h12 v12 a b c show ?thesis by blast
qed

end
